theory Spec2Isabelle
  imports Main
begin

section \<open>Values of the embedding\<close>

text \<open>
  The module \<^verbatim>\<open>discord_components/interaction.py\<close> holds one class, \<^verbatim>\<open>Interaction\<close>,
  with a constructor and one operation, \<^verbatim>\<open>respond\<close>. Both handle JSON: the inbound event
  \<^verbatim>\<open>raw_data\<close> and the outbound payload. A JSON object is a Python \<^verbatim>\<open>dict\<close>, kept here as
  an association list in insertion order, read with \<open>map_of\<close> and written with
  \<open>dict_set\<close>, which never repeats a key. Numbers with a fraction are left out: no
  operation of the module looks inside a number.
\<close>

datatype json =
    JNull
  | JBool bool
  | JInt int
  | JStr string
  | JList "json list"
  | JDict "(string \<times> json) list"

type_synonym dict = "(string \<times> json) list"

text \<open>
  Objects of the wrapped client library (users, messages, channels, guilds, embeds,
  allowed-mentions, the bot and the components client) are opaque to this module: it
  stores references to them and calls a few of their methods. A reference is an
  identity; \<open>None\<close> of an \<open>obj option\<close> is Python's \<^verbatim>\<open>None\<close>.
\<close>

type_synonym obj = nat

text \<open>What the HTTP client of the wrapped library raises; it is propagated unchanged.\<close>

datatype http_error = HTTPException int

datatype error =
    KeyError string
  | TypeError
  | InvalidArgument string
  | Propagated http_error

text \<open>
  The f-string of the route, \<^verbatim>\<open>f"/interactions/{a}/{b}/callback"\<close>, is kept as its pieces:
  literal text and the values Python formats with \<^verbatim>\<open>str\<close>.
\<close>

datatype fpart = Lit string | Fmt json

record request =
  route_method :: string
  route_path :: "fpart list"
  json_body :: json

text \<open>
  The behaviour of everything this module calls but does not define: the methods of the
  library's objects and the helper \<^verbatim>\<open>_get_components_json\<close> of the components client.
  \<open>truth\<close> is Python's truth value of an object (\<^verbatim>\<open>bool(x)\<close>, as taken by \<^verbatim>\<open>if x\<close>);
  \<^verbatim>\<open>discord.Embed\<close> defines \<^verbatim>\<open>__len__\<close> as the size of its text, so an embed without text
  is false.
\<close>

datatype row = Single obj | Line "obj list"

record discord =
  truth :: "obj \<Rightarrow> bool"
  message_channel :: "obj \<Rightarrow> obj option"
  message_guild :: "obj \<Rightarrow> obj option"
  state_allowed_mentions :: "obj \<Rightarrow> obj option"
  get_components_json :: "obj \<Rightarrow> row list option \<Rightarrow> dict"
  embed_to_dict :: "obj \<Rightarrow> json"
  allowed_mentions_merge :: "obj \<Rightarrow> obj \<Rightarrow> obj"
  allowed_mentions_to_dict :: "obj \<Rightarrow> json"
  http_request :: "obj \<Rightarrow> request \<Rightarrow> http_error option"

section \<open>Python primitives\<close>

text \<open>\<^verbatim>\<open>x[k]\<close> with a string key: a missing key of a dict raises KeyError, any other JSON
  value raises TypeError (it has no string subscript).\<close>

fun getitem :: "json \<Rightarrow> string \<Rightarrow> error + json" where
  "getitem (JDict d) k = (case map_of d k of None \<Rightarrow> Inl (KeyError k) | Some v \<Rightarrow> Inr v)"
| "getitem JNull k = Inl TypeError"
| "getitem (JBool b) k = Inl TypeError"
| "getitem (JInt n) k = Inl TypeError"
| "getitem (JStr s) k = Inl TypeError"
| "getitem (JList xs) k = Inl TypeError"

text \<open>\<^verbatim>\<open>d[k] = v\<close>: an existing key keeps its place, a new key goes to the end.\<close>

fun dict_set :: "dict \<Rightarrow> string \<Rightarrow> json \<Rightarrow> dict" where
  "dict_set [] k v = [(k, v)]"
| "dict_set ((k', v') # d) k v =
     (if k' = k then (k, v) # d else (k', v') # dict_set d k v)"

text \<open>\<^verbatim>\<open>{**d, **e}\<close>: the items of \<open>e\<close> are stored into \<open>d\<close> one after the other.\<close>

fun dict_unpack :: "dict \<Rightarrow> dict \<Rightarrow> dict" where
  "dict_unpack d [] = d"
| "dict_unpack d ((k, v) # e) = dict_unpack (dict_set d k v) e"

definition keys :: "dict \<Rightarrow> string set" where
  "keys d = fst ` set d"

text \<open>Truth of an optional object: \<^verbatim>\<open>None\<close> is false, an object has the truth value its
  class gives it.\<close>

fun truthy :: "discord \<Rightarrow> obj option \<Rightarrow> bool" where
  "truthy env None = False"
| "truthy env (Some x) = truth env x"

section \<open>The class Interaction\<close>

definition InteractionType_ChannelMessageWithSource :: int where
  "InteractionType_ChannelMessageWithSource = 4"

definition FlagsType_Ephemeral :: int where
  "FlagsType_Ephemeral = push_bit 6 1"

record interaction =
  bot :: obj
  client :: obj
  user :: "obj option"
  author :: "obj option"
  component :: obj
  raw_data :: dict
  is_ephemeral :: bool
  responded :: bool
  message :: "obj option"
  channel :: "obj option"
  guild :: "obj option"
  interaction_id :: json
  interaction_token :: json

text \<open>
  \<^verbatim>\<open>__init__(self, *, bot, client, user=None, component, raw_data, message=None,
  is_ephemeral=False)\<close>. The two subscripts of \<^verbatim>\<open>raw_data\<close> are the only statements that
  raise; they run in the order of the source, \<^verbatim>\<open>["d"]["id"]\<close> before \<^verbatim>\<open>["d"]["token"]\<close>.
\<close>

definition init ::
  "discord \<Rightarrow> obj \<Rightarrow> obj \<Rightarrow> obj option \<Rightarrow> obj \<Rightarrow> dict \<Rightarrow> obj option \<Rightarrow> bool
     \<Rightarrow> error + interaction" where
  "init env bot' client' user' component' raw_data' message' is_ephemeral' =
     (let channel' = (case message' of
                        Some m \<Rightarrow> if truth env m then message_channel env m else None
                      | None \<Rightarrow> None);
          guild' = (case message' of
                      Some m \<Rightarrow> if truth env m then message_guild env m else None
                    | None \<Rightarrow> None)
      in case getitem (JDict raw_data') ''d'' of
           Inl e \<Rightarrow> Inl e
         | Inr d \<Rightarrow>
             (case getitem d ''id'' of
                Inl e \<Rightarrow> Inl e
              | Inr id' \<Rightarrow>
                  (case getitem (JDict raw_data') ''d'' of
                     Inl e \<Rightarrow> Inl e
                   | Inr d2 \<Rightarrow>
                       (case getitem d2 ''token'' of
                          Inl e \<Rightarrow> Inl e
                        | Inr token' \<Rightarrow>
                            Inr \<lparr> bot = bot', client = client', user = user',
                                  author = user', component = component',
                                  raw_data = raw_data', is_ephemeral = is_ephemeral',
                                  responded = False, message = message',
                                  channel = channel', guild = guild',
                                  interaction_id = id',
                                  interaction_token = token' \<rparr>))))"

section \<open>The operation respond\<close>

text \<open>
  The keyword parameters of \<^verbatim>\<open>respond\<close>. \<open>options\<close> is \<^verbatim>\<open>**options\<close>: the keyword
  arguments that are none of the named parameters.
\<close>

record respond_args =
  type :: int
  content :: "string option"
  embed :: "obj option"
  embeds :: "obj list option"
  allowed_mentions :: "obj option"
  tts :: "bool option"
  ephemeral :: "bool option"
  components :: "row list option"
  options :: dict

text \<open>The defaults of the signature.\<close>

definition default_args :: respond_args where
  "default_args =
     \<lparr> type = InteractionType_ChannelMessageWithSource, content = None, embed = None,
       embeds = None, allowed_mentions = None, tts = Some False,
       ephemeral = Some True, components = None, options = [] \<rparr>"

text \<open>What a call leaves behind: the value returned or the exception raised, the
  instance, the HTTP requests issued, and the caller's \<^verbatim>\<open>embeds\<close> list (line 178 appends
  to it in place).\<close>

record outcome =
  ret :: "error + unit"
  self_after :: interaction
  requests :: "request list"
  embeds_after :: "obj list option"

text \<open>Lines 168 to 172: the dict display, filled from left to right.\<close>

definition base_data :: "discord \<Rightarrow> interaction \<Rightarrow> respond_args \<Rightarrow> dict" where
  "base_data env self a =
     dict_set
       (dict_unpack
          (dict_unpack [] (get_components_json env (client self) (components a)))
          (options a))
       ''flags''
       (JInt (if ephemeral a = Some True then FlagsType_Ephemeral else 0))"

text \<open>Lines 174 and 175.\<close>

definition with_content :: "dict \<Rightarrow> string option \<Rightarrow> dict" where
  "with_content data content' =
     (case content' of None \<Rightarrow> data | Some c \<Rightarrow> dict_set data ''content'' (JStr c))"

text \<open>Truth of an optional list: \<^verbatim>\<open>None\<close> and the empty list are false.\<close>

fun list_truthy :: "'a list option \<Rightarrow> bool" where
  "list_truthy None = False"
| "list_truthy (Some xs) = (xs \<noteq> [])"

text \<open>Lines 177 to 180: the value of the local variable \<^verbatim>\<open>embeds\<close> afterwards.\<close>

definition merge_embeds :: "discord \<Rightarrow> obj option \<Rightarrow> obj list option \<Rightarrow> obj list option" where
  "merge_embeds env embed' embeds' =
     (if truthy env embed' \<and> list_truthy embeds' then
        (case (embed', embeds') of
           (Some e, Some es) \<Rightarrow> Some (es @ [e])
         | _ \<Rightarrow> embeds')
      else if truthy env embed' then
        (case embed' of Some e \<Rightarrow> Some [e] | None \<Rightarrow> embeds')
      else embeds')"

text \<open>The list object the caller passed: only line 178 changes it.\<close>

definition caller_embeds :: "discord \<Rightarrow> obj option \<Rightarrow> obj list option \<Rightarrow> obj list option" where
  "caller_embeds env embed' embeds' =
     (if truthy env embed' \<and> list_truthy embeds' then merge_embeds env embed' embeds'
      else embeds')"

text \<open>Lines 182 to 186.\<close>

definition with_embeds :: "discord \<Rightarrow> dict \<Rightarrow> obj list option \<Rightarrow> error + dict" where
  "with_embeds env data embeds' =
     (if list_truthy embeds' then
        (case embeds' of
           Some es \<Rightarrow>
             (let ds = map (embed_to_dict env) es
              in if length ds > 10 then Inl (InvalidArgument ''Embed limit exceeded. (Max: 10)'')
                 else Inr (dict_set data ''embeds'' (JList ds)))
         | None \<Rightarrow> Inr data)
      else Inr data)"

text \<open>Lines 188 to 194; \<open>state_am\<close> is \<^verbatim>\<open>state.allowed_mentions\<close>.\<close>

definition with_allowed_mentions ::
  "discord \<Rightarrow> obj option \<Rightarrow> dict \<Rightarrow> obj option \<Rightarrow> dict" where
  "with_allowed_mentions env state_am data allowed_mentions' =
     (if truthy env allowed_mentions' then
        (case allowed_mentions' of
           Some am \<Rightarrow>
             dict_set data ''allowed_mentions''
               (if truthy env state_am then
                  (case state_am of
                     Some sam \<Rightarrow>
                       allowed_mentions_to_dict env (allowed_mentions_merge env sam am)
                   | None \<Rightarrow> allowed_mentions_to_dict env am)
                else allowed_mentions_to_dict env am)
         | None \<Rightarrow> data)
      else data)"

text \<open>Lines 196 and 197.\<close>

definition with_tts :: "dict \<Rightarrow> bool option \<Rightarrow> dict" where
  "with_tts data tts' =
     (case tts' of None \<Rightarrow> data | Some t \<Rightarrow> dict_set data ''tts'' (JBool t))"

text \<open>Lines 200 to 203: the route and the body of the request.\<close>

definition callback_request :: "interaction \<Rightarrow> int \<Rightarrow> dict \<Rightarrow> request" where
  "callback_request self type' data =
     \<lparr> route_method = ''POST'',
       route_path = [Lit ''/interactions/'', Fmt (interaction_id self), Lit ''/'',
               Fmt (interaction_token self), Lit ''/callback''],
       json_body = JDict [(''type'', JInt type'), (''data'', JDict data)] \<rparr>"

text \<open>
  \<^verbatim>\<open>respond\<close>, lines 164 to 203. The flag is set before the request is awaited, so it
  stays set when the HTTP client raises.
\<close>

definition respond :: "discord \<Rightarrow> interaction \<Rightarrow> respond_args \<Rightarrow> outcome" where
  "respond env self a =
     (if responded self then
        \<lparr> ret = Inr (), self_after = self, requests = [], embeds_after = embeds a \<rparr>
      else
        (let state_am = state_allowed_mentions env (bot self);
             data = with_content (base_data env self a) (content a);
             embeds' = merge_embeds env (embed a) (embeds a);
             caller = caller_embeds env (embed a) (embeds a)
         in case with_embeds env data embeds' of
              Inl e \<Rightarrow>
                \<lparr> ret = Inl e, self_after = self, requests = [], embeds_after = caller \<rparr>
            | Inr data1 \<Rightarrow>
                (let data2 = with_tts
                               (with_allowed_mentions env state_am data1 (allowed_mentions a))
                               (tts a);
                     self' = self\<lparr>responded := True\<rparr>;
                     r = callback_request self' (type a) data2
                 in \<lparr> ret = (case http_request env (bot self') r of
                               None \<Rightarrow> Inr ()
                             | Some e \<Rightarrow> Inl (Propagated e)),
                      self_after = self', requests = [r], embeds_after = caller \<rparr>)))"

text \<open>A caller that calls \<^verbatim>\<open>respond\<close> again and again on one instance, going on after an
  exception: the instance at the end and all requests issued, in order.\<close>

fun respond_all :: "discord \<Rightarrow> interaction \<Rightarrow> respond_args list \<Rightarrow> interaction \<times> request list" where
  "respond_all env self [] = (self, [])"
| "respond_all env self (a # as) =
     (let out = respond env self a;
          rest = respond_all env (self_after out) as
      in (fst rest, requests out @ snd rest))"

section \<open>Vocabulary of the statements\<close>

text \<open>\<^verbatim>\<open>isinstance(v, dict)\<close>.\<close>

fun is_dict :: "json \<Rightarrow> bool" where
  "is_dict (JDict d) = True"
| "is_dict _ = False"

text \<open>The precondition of C10, in the words of the claim: \<^verbatim>\<open>raw_data\<close> has the key
  \<^verbatim>\<open>"d"\<close>, mapped to a dict that has the keys \<^verbatim>\<open>"id"\<close> and \<^verbatim>\<open>"token"\<close>.\<close>

definition raw_data_has_id_token :: "dict \<Rightarrow> bool" where
  "raw_data_has_id_token raw =
     (case map_of raw ''d'' of
        Some (JDict d) \<Rightarrow> ''id'' \<in> keys d \<and> ''token'' \<in> keys d
      | _ \<Rightarrow> False)"

fun is_KeyError :: "error + 'a \<Rightarrow> bool" where
  "is_KeyError (Inl (KeyError k)) = True"
| "is_KeyError _ = False"

text \<open>The exception of line 185.\<close>

definition limit_error :: error where
  "limit_error = InvalidArgument ''Embed limit exceeded. (Max: 10)''"

text \<open>The embed count of C2, in the words of the claim: \<^verbatim>\<open>len(embeds)\<close> plus one when
  both are given, \<^verbatim>\<open>len(embeds)\<close> when only \<^verbatim>\<open>embeds\<close> is given, one when only \<^verbatim>\<open>embed\<close> is
  given.\<close>

definition spec_embed_total :: "obj option \<Rightarrow> obj list option \<Rightarrow> nat" where
  "spec_embed_total embed' embeds' =
     (case (embed', embeds') of
        (Some e, Some es) \<Rightarrow> length es + 1
      | (None, Some es) \<Rightarrow> length es
      | (Some e, None) \<Rightarrow> 1
      | (None, None) \<Rightarrow> 0)"

text \<open>The supplied embeds of C5, in the words of the claim: all of them, those of
  \<^verbatim>\<open>embeds\<close> and \<^verbatim>\<open>embed\<close>.\<close>

definition spec_supplied_embeds :: "obj option \<Rightarrow> obj list option \<Rightarrow> obj list" where
  "spec_supplied_embeds embed' embeds' =
     (case embeds' of None \<Rightarrow> [] | Some es \<Rightarrow> es)
     @ (case embed' of None \<Rightarrow> [] | Some e \<Rightarrow> [e])"

text \<open>The embeds a call goes on to send, as lines 177 to 180 leave them: the list
  \<^verbatim>\<open>embeds\<close>, followed by \<^verbatim>\<open>embed\<close> when it is true.\<close>

definition sent_embeds :: "discord \<Rightarrow> obj option \<Rightarrow> obj list option \<Rightarrow> obj list" where
  "sent_embeds env embed' embeds' =
     (case embeds' of None \<Rightarrow> [] | Some es \<Rightarrow> es)
     @ (case embed' of None \<Rightarrow> [] | Some e \<Rightarrow> if truth env e then [e] else [])"

text \<open>The keys that \<^verbatim>\<open>respond\<close> itself may add to the data of the payload.\<close>

definition payload_keys :: "string set" where
  "payload_keys = {''content'', ''embeds'', ''allowed_mentions'', ''tts''}"

text \<open>The data of the payload on the path that reaches the request, blocks composed.\<close>

definition sent_data :: "discord \<Rightarrow> interaction \<Rightarrow> respond_args \<Rightarrow> dict" where
  "sent_data env self a =
     with_tts
       (with_allowed_mentions env (state_allowed_mentions env (bot self))
          (if sent_embeds env (embed a) (embeds a) \<noteq> [] then
             dict_set (with_content (base_data env self a) (content a)) ''embeds''
               (JList (map (embed_to_dict env) (sent_embeds env (embed a) (embeds a))))
           else with_content (base_data env self a) (content a))
          (allowed_mentions a))
       (tts a)"

section \<open>Concrete inputs\<close>

text \<open>A library in which object 0 is false (an embed without text) and every other
  object is true, and an instance built from a well-formed event.\<close>

definition example_env :: discord where
  "example_env =
     \<lparr> truth = (\<lambda>x. x \<noteq> 0),
       message_channel = (\<lambda>m. Some 7),
       message_guild = (\<lambda>m. None),
       state_allowed_mentions = (\<lambda>b. None),
       get_components_json = (\<lambda>c rs. []),
       embed_to_dict = (\<lambda>e. JDict [(''type'', JStr ''rich'')]),
       allowed_mentions_merge = (\<lambda>x y. y),
       allowed_mentions_to_dict = (\<lambda>x. JDict [(''parse'', JList [])]),
       http_request = (\<lambda>b r. None) \<rparr>"

definition example_raw_data :: dict where
  "example_raw_data =
     [(''t'', JStr ''INTERACTION_CREATE''),
      (''d'', JDict [(''id'', JStr ''42''), (''token'', JStr ''tok'')])]"

definition example_interaction :: interaction where
  "example_interaction =
     \<lparr> bot = 1, client = 2, user = Some 3, author = Some 3, component = 4,
       raw_data = example_raw_data, is_ephemeral = False, responded = False,
       message = Some 5, channel = Some 7, guild = None,
       interaction_id = JStr ''42'', interaction_token = JStr ''tok'' \<rparr>"

definition ten_embeds :: "obj list" where
  "ten_embeds = [1, 2, 3, 4, 5, 6, 7, 8, 9, 10]"

section \<open>Facts about the primitives\<close>

lemma FlagsType_Ephemeral_64: "FlagsType_Ephemeral = 64"
  by (simp add: FlagsType_Ephemeral_def push_bit_eq_mult)

lemma keys_dict_set: "keys (dict_set d k v) = insert k (keys d)"
  by (induction d k v rule: dict_set.induct) (auto simp: keys_def)

lemma map_of_dict_set: "map_of (dict_set d k v) = (map_of d)(k \<mapsto> v)"
  by (induction d k v rule: dict_set.induct) auto

lemma keys_Nil: "keys [] = {}"
  by (simp add: keys_def)

lemma keys_Cons: "keys ((k, v) # d) = insert k (keys d)"
  by (simp add: keys_def)

lemma keys_dict_unpack: "keys (dict_unpack d e) = keys d \<union> keys e"
  by (induction d e rule: dict_unpack.induct) (auto simp: keys_dict_set keys_Nil keys_Cons)

lemma keys_map_of: "k \<in> keys d \<longleftrightarrow> map_of d k \<noteq> None"
  by (simp add: keys_def map_of_eq_None_iff)

lemma respond_responded:
  "responded self \<Longrightarrow>
     respond env self a =
       \<lparr> ret = Inr (), self_after = self, requests = [], embeds_after = embeds a \<rparr>"
  by (simp add: respond_def)

lemma respond_sets_flag:
  "responded self \<Longrightarrow> responded (self_after (respond env self a))"
  by (simp add: respond_def)

lemma respond_requests_flag:
  "requests (respond env self a) \<noteq> [] \<Longrightarrow> responded (self_after (respond env self a))"
  by (auto simp: respond_def Let_def split: if_splits sum.splits)

lemma respond_requests_le: "length (requests (respond env self a)) \<le> 1"
  by (auto simp: respond_def Let_def split: if_splits sum.splits)

lemma respond_all_responded: "responded self \<Longrightarrow> respond_all env self as = (self, [])"
  by (induction as) (simp_all add: respond_responded)

lemma respond_all_le: "length (snd (respond_all env self as)) \<le> 1"
proof (induction as arbitrary: self)
  case Nil
  then show ?case by simp
next
  case (Cons a as)
  show ?case
  proof (cases "requests (respond env self a) = []")
    case True
    then show ?thesis using Cons.IH [of "self_after (respond env self a)"] by (simp add: Let_def)
  next
    case False
    then have "responded (self_after (respond env self a))" by (rule respond_requests_flag)
    then have "respond_all env (self_after (respond env self a)) as = (self_after (respond env self a), [])"
      by (rule respond_all_responded)
    then show ?thesis using respond_requests_le [of env self a] by (simp add: Let_def)
  qed
qed


lemma init_example:
  "init example_env 1 2 (Some 3) 4 example_raw_data (Some 5) False = Inr example_interaction"
  by (simp add: init_def example_env_def example_raw_data_def example_interaction_def)

lemma getitem_Inr: "getitem j k = Inr v \<Longrightarrow> \<exists>d. j = JDict d \<and> map_of d k = Some v"
  by (cases j) (auto split: option.splits)

lemma init_KeyError_d:
  "map_of raw ''d'' = None \<Longrightarrow> init env b c u co raw m e = Inl (KeyError ''d'')"
  by (simp add: init_def)

lemma init_not_dict:
  "map_of raw ''d'' = Some v \<Longrightarrow> \<not> is_dict v \<Longrightarrow> init env b c u co raw m e = Inl TypeError"
  by (cases v) (simp_all add: init_def)

lemma init_dict:
  "map_of raw ''d'' = Some (JDict d) \<Longrightarrow>
     init env b c u co raw m e =
       (case map_of d ''id'' of
          None \<Rightarrow> Inl (KeyError ''id'')
        | Some id' \<Rightarrow>
            (case map_of d ''token'' of
               None \<Rightarrow> Inl (KeyError ''token'')
             | Some token' \<Rightarrow>
                 Inr \<lparr> bot = b, client = c, user = u, author = u, component = co,
                       raw_data = raw, is_ephemeral = e, responded = False, message = m,
                       channel = (case m of Some x \<Rightarrow> if truth env x then message_channel env x else None | None \<Rightarrow> None),
                       guild = (case m of Some x \<Rightarrow> if truth env x then message_guild env x else None | None \<Rightarrow> None),
                       interaction_id = id', interaction_token = token' \<rparr>))"
  by (simp add: init_def Let_def split: option.splits)

section \<open>Facts about respond\<close>

lemma list_truthy_merge_embeds:
  "list_truthy (merge_embeds env em es) \<longleftrightarrow> sent_embeds env em es \<noteq> []"
  by (cases em; cases es) (auto simp: merge_embeds_def sent_embeds_def)

lemma merge_embeds_sent:
  "list_truthy (merge_embeds env em es) \<Longrightarrow> merge_embeds env em es = Some (sent_embeds env em es)"
  by (cases em; cases es) (auto simp: merge_embeds_def sent_embeds_def split: if_splits)

lemma with_embeds_merge:
  "with_embeds env data (merge_embeds env em es) =
     (if 10 < length (sent_embeds env em es) then Inl limit_error
      else if sent_embeds env em es \<noteq> [] then
        Inr (dict_set data ''embeds'' (JList (map (embed_to_dict env) (sent_embeds env em es))))
      else Inr data)"
proof (cases "list_truthy (merge_embeds env em es)")
  case True
  then show ?thesis
    using merge_embeds_sent [OF True] list_truthy_merge_embeds [of env em es]
    by (simp add: with_embeds_def limit_error_def)
next
  case False
  then show ?thesis
    using list_truthy_merge_embeds [of env em es]
    by (simp add: with_embeds_def)
qed

lemma respond_raises:
  "\<not> responded self \<Longrightarrow> 10 < length (sent_embeds env (embed a) (embeds a)) \<Longrightarrow>
     respond env self a =
       \<lparr> ret = Inl limit_error, self_after = self, requests = [],
         embeds_after = caller_embeds env (embed a) (embeds a) \<rparr>"
  by (simp add: respond_def with_embeds_merge Let_def)

lemma respond_sends:
  "\<not> responded self \<Longrightarrow> length (sent_embeds env (embed a) (embeds a)) \<le> 10 \<Longrightarrow>
     respond env self a =
       \<lparr> ret = (case http_request env (bot self)
                     (callback_request (self\<lparr>responded := True\<rparr>) (type a) (sent_data env self a)) of
                  None \<Rightarrow> Inr () | Some e \<Rightarrow> Inl (Propagated e)),
         self_after = self\<lparr>responded := True\<rparr>,
         requests = [callback_request (self\<lparr>responded := True\<rparr>) (type a) (sent_data env self a)],
         embeds_after = caller_embeds env (embed a) (embeds a) \<rparr>"
  by (simp add: respond_def with_embeds_merge Let_def sent_data_def base_data_def)


lemma keys_base_data:
  "keys (base_data env self a) =
     insert ''flags'' (keys (get_components_json env (client self) (components a)) \<union> keys (options a))"
  by (simp add: base_data_def keys_dict_set keys_dict_unpack keys_Nil)

lemma map_of_base_data_flags:
  "map_of (base_data env self a) ''flags'' = Some (JInt (if ephemeral a = Some True then 64 else 0))"
  by (simp add: base_data_def map_of_dict_set FlagsType_Ephemeral_64)

lemma keys_with_content:
  "keys (with_content d c) = keys d \<union> (if c = None then {} else {''content''})"
  by (cases c) (simp_all add: with_content_def keys_dict_set)

lemma map_of_with_content:
  "map_of (with_content d c) k =
     (case c of None \<Rightarrow> map_of d k | Some x \<Rightarrow> if k = ''content'' then Some (JStr x) else map_of d k)"
  by (cases c) (simp_all add: with_content_def map_of_dict_set)

lemma keys_with_allowed_mentions:
  "keys (with_allowed_mentions env s d am) =
     keys d \<union> (if truthy env am then {''allowed_mentions''} else {})"
  by (cases am) (simp_all add: with_allowed_mentions_def keys_dict_set)

lemma map_of_with_allowed_mentions:
  "k \<noteq> ''allowed_mentions'' \<Longrightarrow> map_of (with_allowed_mentions env s d am) k = map_of d k"
  by (cases am) (simp_all add: with_allowed_mentions_def map_of_dict_set)

lemma keys_with_tts:
  "keys (with_tts d t) = keys d \<union> (if t = None then {} else {''tts''})"
  by (cases t) (simp_all add: with_tts_def keys_dict_set)

lemma map_of_with_tts:
  "map_of (with_tts d t) k =
     (case t of None \<Rightarrow> map_of d k | Some x \<Rightarrow> if k = ''tts'' then Some (JBool x) else map_of d k)"
  by (cases t) (simp_all add: with_tts_def map_of_dict_set)

lemma keys_sent_data:
  "keys (sent_data env self a) =
     insert ''flags'' (keys (get_components_json env (client self) (components a)) \<union> keys (options a))
     \<union> (if content a = None then {} else {''content''})
     \<union> (if sent_embeds env (embed a) (embeds a) \<noteq> [] then {''embeds''} else {})
     \<union> (if truthy env (allowed_mentions a) then {''allowed_mentions''} else {})
     \<union> (if tts a = None then {} else {''tts''})"
  by (auto simp: sent_data_def keys_with_tts keys_with_allowed_mentions keys_dict_set
      keys_with_content keys_base_data)

lemma map_of_sent_data_flags:
  "map_of (sent_data env self a) ''flags'' = Some (JInt (if ephemeral a = Some True then 64 else 0))"
  by (simp add: sent_data_def map_of_with_tts map_of_with_allowed_mentions map_of_dict_set
      map_of_with_content map_of_base_data_flags split: option.splits)

lemma map_of_sent_data_content:
  "content a = Some c \<Longrightarrow> map_of (sent_data env self a) ''content'' = Some (JStr c)"
  by (simp add: sent_data_def map_of_with_tts map_of_with_allowed_mentions map_of_dict_set
      map_of_with_content split: option.splits)

lemma map_of_sent_data_embeds:
  "sent_embeds env (embed a) (embeds a) \<noteq> [] \<Longrightarrow>
     map_of (sent_data env self a) ''embeds'' =
       Some (JList (map (embed_to_dict env) (sent_embeds env (embed a) (embeds a))))"
  by (simp add: sent_data_def map_of_with_tts map_of_with_allowed_mentions map_of_dict_set
      split: option.splits)

lemma map_of_sent_data_tts:
  "tts a = Some t \<Longrightarrow> map_of (sent_data env self a) ''tts'' = Some (JBool t)"
  by (simp add: sent_data_def map_of_with_tts)

lemma respond_requests_cases:
  "requests (respond env self a) =
     (if responded self \<or> 10 < length (sent_embeds env (embed a) (embeds a)) then []
      else [callback_request (self\<lparr>responded := True\<rparr>) (type a) (sent_data env self a)])"
proof (cases "responded self")
  case True
  then show ?thesis by (simp add: respond_responded)
next
  case False
  then show ?thesis
    by (cases "10 < length (sent_embeds env (embed a) (embeds a))")
       (simp_all add: respond_raises respond_sends)
qed

lemma respond_ret_cases:
  "ret (respond env self a) =
     (if responded self then Inr ()
      else if 10 < length (sent_embeds env (embed a) (embeds a)) then Inl limit_error
      else (case http_request env (bot self)
                   (callback_request (self\<lparr>responded := True\<rparr>) (type a) (sent_data env self a)) of
              None \<Rightarrow> Inr () | Some e \<Rightarrow> Inl (Propagated e)))"
proof (cases "responded self")
  case True
  then show ?thesis by (simp add: respond_responded)
next
  case False
  then show ?thesis
    by (cases "10 < length (sent_embeds env (embed a) (embeds a))")
       (simp_all add: respond_raises respond_sends)
qed


lemma sent_embeds_spec:
  "embed' = None \<or> truthy env embed' \<Longrightarrow>
     length (sent_embeds env embed' embeds') = spec_embed_total embed' embeds'"
  by (cases embed'; cases embeds') (auto simp: sent_embeds_def spec_embed_total_def)

lemma respond_requests_single:
  "requests (respond env self a) = [r] \<Longrightarrow>
     \<not> responded self \<and> length (sent_embeds env (embed a) (embeds a)) \<le> 10
     \<and> r = callback_request (self\<lparr>responded := True\<rparr>) (type a) (sent_data env self a)"
  by (auto simp: respond_requests_cases split: if_splits)

text \<open>The data a call sends, key by key.\<close>

lemma respond_payload_sent:
  assumes "requests (respond env self a) = [r]"
  shows "\<exists>data.
           json_body r = JDict [(''type'', JInt (type a)), (''data'', JDict data)]
           \<and> map_of data ''flags'' = Some (JInt (if ephemeral a = Some True then 64 else 0))
           \<and> (\<forall>c. content a = Some c \<longrightarrow> map_of data ''content'' = Some (JStr c))
           \<and> (sent_embeds env (embed a) (embeds a) \<noteq> [] \<longrightarrow>
                map_of data ''embeds'' =
                  Some (JList (map (embed_to_dict env) (sent_embeds env (embed a) (embeds a)))))
           \<and> (truthy env (allowed_mentions a) \<longrightarrow> ''allowed_mentions'' \<in> keys data)
           \<and> (\<forall>t. tts a = Some t \<longrightarrow> map_of data ''tts'' = Some (JBool t))
           \<and> (keys (get_components_json env (client self) (components a)) \<inter> payload_keys = {}
                \<and> keys (options a) \<inter> payload_keys = {} \<longrightarrow>
                  (''content'' \<in> keys data \<longleftrightarrow> content a \<noteq> None)
                  \<and> (''embeds'' \<in> keys data \<longleftrightarrow> sent_embeds env (embed a) (embeds a) \<noteq> [])
                  \<and> (''allowed_mentions'' \<in> keys data \<longleftrightarrow> truthy env (allowed_mentions a))
                  \<and> (''tts'' \<in> keys data \<longleftrightarrow> tts a \<noteq> None))"
proof -
  let ?data = "sent_data env self a"
  let ?free = "keys (get_components_json env (client self) (components a)) \<inter> payload_keys = {}
                 \<and> keys (options a) \<inter> payload_keys = {}"
  have r: "json_body r = JDict [(''type'', JInt (type a)), (''data'', JDict ?data)]"
    using respond_requests_single [OF assms] by (simp add: callback_request_def)
  have f: "map_of ?data ''flags'' = Some (JInt (if ephemeral a = Some True then 64 else 0))"
    by (rule map_of_sent_data_flags)
  have c: "\<forall>c. content a = Some c \<longrightarrow> map_of ?data ''content'' = Some (JStr c)"
    by (simp add: map_of_sent_data_content)
  have e: "sent_embeds env (embed a) (embeds a) \<noteq> [] \<longrightarrow>
             map_of ?data ''embeds'' =
               Some (JList (map (embed_to_dict env) (sent_embeds env (embed a) (embeds a))))"
    by (simp add: map_of_sent_data_embeds)
  have m: "truthy env (allowed_mentions a) \<longrightarrow> ''allowed_mentions'' \<in> keys ?data"
    by (simp add: keys_sent_data)
  have t: "\<forall>t. tts a = Some t \<longrightarrow> map_of ?data ''tts'' = Some (JBool t)"
    by (simp add: map_of_sent_data_tts)
  have k: "?free \<longrightarrow>
             (''content'' \<in> keys ?data \<longleftrightarrow> content a \<noteq> None)
             \<and> (''embeds'' \<in> keys ?data \<longleftrightarrow> sent_embeds env (embed a) (embeds a) \<noteq> [])
             \<and> (''allowed_mentions'' \<in> keys ?data \<longleftrightarrow> truthy env (allowed_mentions a))
             \<and> (''tts'' \<in> keys ?data \<longleftrightarrow> tts a \<noteq> None)"
  proof
    assume ?free
    then have n:
      "''content'' \<notin> keys (get_components_json env (client self) (components a))"
      "''embeds'' \<notin> keys (get_components_json env (client self) (components a))"
      "''allowed_mentions'' \<notin> keys (get_components_json env (client self) (components a))"
      "''tts'' \<notin> keys (get_components_json env (client self) (components a))"
      "''content'' \<notin> keys (options a)" "''embeds'' \<notin> keys (options a)"
      "''allowed_mentions'' \<notin> keys (options a)" "''tts'' \<notin> keys (options a)"
      by (auto simp: payload_keys_def)
    have "''content'' \<in> keys ?data \<longleftrightarrow> content a \<noteq> None"
      using n by (simp add: keys_sent_data)
    moreover have "''embeds'' \<in> keys ?data \<longleftrightarrow> sent_embeds env (embed a) (embeds a) \<noteq> []"
      using n by (simp add: keys_sent_data)
    moreover have "''allowed_mentions'' \<in> keys ?data \<longleftrightarrow> truthy env (allowed_mentions a)"
      using n by (simp add: keys_sent_data)
    moreover have "''tts'' \<in> keys ?data \<longleftrightarrow> tts a \<noteq> None"
      using n by (simp add: keys_sent_data)
    ultimately show
      "(''content'' \<in> keys ?data \<longleftrightarrow> content a \<noteq> None)
       \<and> (''embeds'' \<in> keys ?data \<longleftrightarrow> sent_embeds env (embed a) (embeds a) \<noteq> [])
       \<and> (''allowed_mentions'' \<in> keys ?data \<longleftrightarrow> truthy env (allowed_mentions a))
       \<and> (''tts'' \<in> keys ?data \<longleftrightarrow> tts a \<noteq> None)"
      by blast
  qed
  from r f c e m t k show ?thesis by blast
qed

text \<open>Where \<^verbatim>\<open>embed\<close> is \<^verbatim>\<open>None\<close> or true, the embeds sent are the embeds supplied, and
  the limit and the key \<^verbatim>\<open>"embeds"\<close> follow the supplied embeds.\<close>

lemma sent_embeds_supplied:
  "embed' = None \<or> truthy env embed' \<Longrightarrow>
     sent_embeds env embed' embeds' = spec_supplied_embeds embed' embeds'"
  by (cases embed') (auto simp: sent_embeds_def spec_supplied_embeds_def)

lemma respond_embed_limit_truthy:
  assumes "\<not> responded self" and "embed a = None \<or> truthy env (embed a)"
  shows "(ret (respond env self a) = Inl limit_error
            \<longleftrightarrow> 10 < spec_embed_total (embed a) (embeds a))
         \<and> (\<forall>e. ret (respond env self a) = Inl e \<longrightarrow> e = limit_error \<or> (\<exists>h. e = Propagated h))
         \<and> (ret (respond env self a) = Inl limit_error \<longrightarrow> requests (respond env self a) = [])"
  using assms(1) sent_embeds_spec [OF assms(2), of "embeds a"]
  by (auto simp: respond_ret_cases respond_requests_cases limit_error_def split: option.splits)

lemma respond_payload_truthy:
  assumes "requests (respond env self a) = [r]"
    and "embed a = None \<or> truthy env (embed a)"
    and "keys (get_components_json env (client self) (components a)) \<inter> payload_keys = {}"
    and "keys (options a) \<inter> payload_keys = {}"
  shows "\<exists>data.
           json_body r = JDict [(''type'', JInt (type a)), (''data'', JDict data)]
           \<and> (''embeds'' \<in> keys data \<longleftrightarrow> spec_supplied_embeds (embed a) (embeds a) \<noteq> [])
           \<and> (spec_supplied_embeds (embed a) (embeds a) \<noteq> [] \<longrightarrow>
                map_of data ''embeds'' =
                  Some (JList (map (embed_to_dict env)
                                 (spec_supplied_embeds (embed a) (embeds a)))))"
  using respond_payload_sent [OF assms(1)] assms(3,4)
    sent_embeds_supplied [OF assms(2), of "embeds a"]
  by auto

text \<open>The equations that evaluate a call on the concrete inputs.\<close>

lemmas respond_eval =
  respond_def base_data_def with_content_def merge_embeds_def caller_embeds_def
  with_embeds_def with_allowed_mentions_def with_tts_def callback_request_def
  example_env_def example_interaction_def default_args_def ten_embeds_def Let_def
  FlagsType_Ephemeral_64 InteractionType_ChannelMessageWithSource_def

section \<open>The claims\<close>

text \<open>
  C1. \<^verbatim>\<open>respond\<close> is effectively executed at most once per instance. On an instance whose
  \<open>responded\<close> flag is set, a call returns \<^verbatim>\<open>None\<close>, issues no request and changes no
  field (nor the caller's list), and so does any further sequence of calls; a call that
  issues a request leaves the flag set; any sequence of calls on one instance issues at
  most one request in total.
\<close>

theorem respond_effective_once:
  "(responded self \<longrightarrow>
      respond env self a =
        \<lparr> ret = Inr (), self_after = self, requests = [], embeds_after = embeds a \<rparr>
      \<and> respond_all env self as = (self, []))
   \<and> (requests (respond env self a) \<noteq> [] \<longrightarrow> responded (self_after (respond env self a)))
   \<and> length (snd (respond_all env self as)) \<le> 1"
  using respond_responded [of self env a] respond_all_responded [of self env as]
    respond_requests_flag [of env self a] respond_all_le [of env self as]
  by blast

theorem respond_effective_once_witness:
  "responded (self_after (respond example_env example_interaction default_args))
   \<and> respond example_env (self_after (respond example_env example_interaction default_args))
        default_args =
       \<lparr> ret = Inr (),
         self_after = self_after (respond example_env example_interaction default_args),
         requests = [], embeds_after = None \<rparr>
   \<and> requests (respond example_env example_interaction default_args) \<noteq> []
   \<and> length (snd (respond_all example_env example_interaction
                     [default_args, default_args, default_args])) \<le> 1"
proof -
  let ?s = "self_after (respond example_env example_interaction default_args)"
  have r: "requests (respond example_env example_interaction default_args) \<noteq> []"
    by (simp add: respond_def example_interaction_def with_embeds_def merge_embeds_def
        default_args_def Let_def)
  have h: "responded ?s"
    using respond_effective_once [of example_interaction example_env default_args "[]"] r
    by blast
  have e: "embeds default_args = None" by (simp add: default_args_def)
  show ?thesis
    using h r e respond_effective_once [of ?s example_env default_args "[]"]
      respond_effective_once [of example_interaction example_env default_args
        "[default_args, default_args, default_args]"]
    by simp
qed

text \<open>
  C4. A constructed instance holds the fields of the event as they came:
  \<open>interaction_id\<close> and \<open>interaction_token\<close> are \<^verbatim>\<open>raw_data["d"]["id"]\<close> and
  \<^verbatim>\<open>raw_data["d"]["token"]\<close>, the parameters \<open>bot\<close>, \<open>client\<close>, \<open>user\<close>, \<open>component\<close>,
  \<open>raw_data\<close>, \<open>message\<close> and \<open>is_ephemeral\<close> are stored unchanged, \<open>author\<close> is \<open>user\<close>,
  and \<open>responded\<close> starts as False.
\<close>

theorem init_copies_fields:
  "init env bot' client' user' component' raw_data' message' is_ephemeral' = Inr i \<Longrightarrow>
     (\<exists>d. map_of raw_data' ''d'' = Some (JDict d)
          \<and> map_of d ''id'' = Some (interaction_id i)
          \<and> map_of d ''token'' = Some (interaction_token i))
     \<and> bot i = bot' \<and> client i = client'
     \<and> user i = user' \<and> component i = component' \<and> raw_data i = raw_data'
     \<and> message i = message' \<and> is_ephemeral i = is_ephemeral'
     \<and> author i = user i \<and> responded i = False"
  by (auto simp: init_def Let_def split: sum.splits option.splits dest!: getitem_Inr)

theorem init_copies_fields_witness:
  "init example_env 1 2 (Some 3) 4 example_raw_data (Some 5) False = Inr example_interaction
   \<and> map_of example_raw_data ''d'' = Some (JDict [(''id'', JStr ''42''), (''token'', JStr ''tok'')])
   \<and> interaction_id example_interaction = JStr ''42''
   \<and> interaction_token example_interaction = JStr ''tok''
   \<and> user example_interaction = Some 3 \<and> author example_interaction = Some 3
   \<and> component example_interaction = 4 \<and> raw_data example_interaction = example_raw_data
   \<and> message example_interaction = Some 5 \<and> is_ephemeral example_interaction = False
   \<and> responded example_interaction = False"
proof -
  have h: "init example_env 1 2 (Some 3) 4 example_raw_data (Some 5) False
             = Inr example_interaction"
    by (rule init_example)
  have d: "map_of example_raw_data ''d''
             = Some (JDict [(''id'', JStr ''42''), (''token'', JStr ''tok'')])"
    by (simp add: example_raw_data_def)
  show ?thesis
    using h d init_copies_fields [OF h] by auto
qed

text \<open>
  C6. The flag \<open>responded\<close> is a one-shot guard: it is False after construction, a call
  of \<^verbatim>\<open>respond\<close> (and any sequence of calls) on an instance where it is True leaves it
  True, and when a call changes it, the change is from False to True.
\<close>

theorem responded_one_shot:
  "(init env bot' client' user' component' raw_data' message' is_ephemeral' = Inr i
      \<longrightarrow> \<not> responded i)
   \<and> (responded self \<longrightarrow> responded (self_after (respond env self a)))
   \<and> (responded self \<longrightarrow> responded (fst (respond_all env self as)))
   \<and> (responded (self_after (respond env self a)) \<noteq> responded self
        \<longrightarrow> \<not> responded self \<and> responded (self_after (respond env self a)))"
proof -
  have "init env bot' client' user' component' raw_data' message' is_ephemeral' = Inr i
          \<Longrightarrow> \<not> responded i"
    by (auto simp: init_def Let_def split: sum.splits)
  then show ?thesis
    using respond_sets_flag [of self env a] respond_all_responded [of self env as]
    by auto
qed

theorem responded_one_shot_witness:
  "init example_env 1 2 (Some 3) 4 example_raw_data (Some 5) False = Inr example_interaction
   \<and> \<not> responded example_interaction
   \<and> responded (self_after (respond example_env example_interaction default_args))
   \<and> responded (self_after (respond example_env
        (self_after (respond example_env example_interaction default_args)) default_args))
   \<and> responded (fst (respond_all example_env
        (self_after (respond example_env example_interaction default_args))
        [default_args, default_args]))"
proof -
  let ?s = "self_after (respond example_env example_interaction default_args)"
  have h: "init example_env 1 2 (Some 3) 4 example_raw_data (Some 5) False
             = Inr example_interaction"
    by (rule init_example)
  have s: "responded ?s"
    by (simp add: respond_def example_interaction_def with_embeds_def merge_embeds_def
        default_args_def Let_def)
  show ?thesis
    using h s
      responded_one_shot [of example_env 1 2 "Some 3" 4 example_raw_data "Some 5" False
        example_interaction ?s default_args "[default_args, default_args]"]
    by blast
qed

text \<open>
  C7. \<^verbatim>\<open>respond\<close> assigns no field of the instance but \<open>responded\<close>: after any call the
  fields \<open>bot\<close>, \<open>client\<close>, \<open>user\<close>, \<open>author\<close>, \<open>component\<close>, \<open>raw_data\<close>, \<open>message\<close>,
  \<open>channel\<close>, \<open>guild\<close>, \<open>interaction_id\<close>, \<open>interaction_token\<close> and \<open>is_ephemeral\<close> are
  what they were.
\<close>

theorem respond_frame:
  "bot (self_after (respond env self a)) = bot self
   \<and> client (self_after (respond env self a)) = client self
   \<and> user (self_after (respond env self a)) = user self
   \<and> author (self_after (respond env self a)) = author self
   \<and> component (self_after (respond env self a)) = component self
   \<and> raw_data (self_after (respond env self a)) = raw_data self
   \<and> message (self_after (respond env self a)) = message self
   \<and> channel (self_after (respond env self a)) = channel self
   \<and> guild (self_after (respond env self a)) = guild self
   \<and> interaction_id (self_after (respond env self a)) = interaction_id self
   \<and> interaction_token (self_after (respond env self a)) = interaction_token self
   \<and> is_ephemeral (self_after (respond env self a)) = is_ephemeral self"
  by (simp add: respond_def Let_def split: sum.splits)

text \<open>
  C10, as stated, fails: \<^verbatim>\<open>raw_data = {"d": None}\<close> violates the precondition and the
  constructor raises TypeError, not KeyError.
\<close>

theorem init_raises_counterexample:
  "\<not> raw_data_has_id_token [(''d'', JNull)]
   \<and> \<not> is_KeyError (init example_env 1 2 None 4 [(''d'', JNull)] None False)
   \<and> init example_env 1 2 None 4 [(''d'', JNull)] None False = Inl TypeError"
  by (simp add: raw_data_has_id_token_def init_def)

text \<open>
  C10, amended. When \<^verbatim>\<open>raw_data\<close> has the key \<^verbatim>\<open>"d"\<close>, mapped to a dict with the keys
  \<^verbatim>\<open>"id"\<close> and \<^verbatim>\<open>"token"\<close>, construction succeeds. When \<^verbatim>\<open>raw_data\<close> lacks \<^verbatim>\<open>"d"\<close>, or
  \<^verbatim>\<open>raw_data["d"]\<close> is a dict that lacks \<^verbatim>\<open>"id"\<close> or \<^verbatim>\<open>"token"\<close>, the constructor raises
  KeyError of the first missing key. When \<^verbatim>\<open>raw_data["d"]\<close> is not a dict, it raises
  TypeError.
\<close>

theorem init_raises:
  "(raw_data_has_id_token raw \<longrightarrow> (\<exists>i. init env b c u co raw m e = Inr i))
   \<and> (''d'' \<notin> keys raw \<longrightarrow> init env b c u co raw m e = Inl (KeyError ''d''))
   \<and> (map_of raw ''d'' = Some (JDict d) \<and> ''id'' \<notin> keys d
        \<longrightarrow> init env b c u co raw m e = Inl (KeyError ''id''))
   \<and> (map_of raw ''d'' = Some (JDict d) \<and> ''id'' \<in> keys d \<and> ''token'' \<notin> keys d
        \<longrightarrow> init env b c u co raw m e = Inl (KeyError ''token''))
   \<and> (map_of raw ''d'' = Some v \<and> \<not> is_dict v
        \<longrightarrow> init env b c u co raw m e = Inl TypeError)"
proof -
  have 1: "raw_data_has_id_token raw \<Longrightarrow> \<exists>i. init env b c u co raw m e = Inr i"
    by (auto simp: raw_data_has_id_token_def keys_map_of init_dict
        split: option.splits json.splits)
  have 2: "''d'' \<notin> keys raw \<Longrightarrow> init env b c u co raw m e = Inl (KeyError ''d'')"
    by (simp add: keys_map_of init_KeyError_d)
  have 3: "map_of raw ''d'' = Some (JDict d) \<Longrightarrow> ''id'' \<notin> keys d
             \<Longrightarrow> init env b c u co raw m e = Inl (KeyError ''id'')"
    by (simp add: keys_map_of init_dict)
  have 4: "map_of raw ''d'' = Some (JDict d) \<Longrightarrow> ''id'' \<in> keys d \<Longrightarrow> ''token'' \<notin> keys d
             \<Longrightarrow> init env b c u co raw m e = Inl (KeyError ''token'')"
    by (auto simp: keys_map_of init_dict)
  have 5: "map_of raw ''d'' = Some v \<Longrightarrow> \<not> is_dict v
             \<Longrightarrow> init env b c u co raw m e = Inl TypeError"
    by (rule init_not_dict)
  from 1 2 3 4 5 show ?thesis by blast
qed

theorem init_raises_witness:
  "raw_data_has_id_token example_raw_data
   \<and> (\<exists>i. init example_env 1 2 None 4 example_raw_data None False = Inr i)
   \<and> ''d'' \<notin> keys [(''t'', JStr ''X'')]
   \<and> init example_env 1 2 None 4 [(''t'', JStr ''X'')] None False = Inl (KeyError ''d'')
   \<and> init example_env 1 2 None 4 [(''d'', JDict [(''token'', JStr ''tok'')])] None False
       = Inl (KeyError ''id'')
   \<and> init example_env 1 2 None 4 [(''d'', JDict [(''id'', JStr ''42'')])] None False
       = Inl (KeyError ''token'')
   \<and> init example_env 1 2 None 4 [(''d'', JStr ''42'')] None False = Inl TypeError"
proof -
  have p: "raw_data_has_id_token example_raw_data"
    by (simp add: raw_data_has_id_token_def example_raw_data_def keys_def)
  have k: "''d'' \<notin> keys [(''t'', JStr ''X'')]"
    by (simp add: keys_def)
  have n: "\<not> is_dict (JStr ''42'')" by simp
  show ?thesis
    using p k n
      init_raises [of example_raw_data example_env 1 2 None 4 None False]
      init_raises [of "[(''t'', JStr ''X'')]" example_env 1 2 None 4 None False]
      init_raises [of "[(''d'', JDict [(''token'', JStr ''tok'')])]" example_env 1 2 None 4
        None False "[(''token'', JStr ''tok'')]"]
      init_raises [of "[(''d'', JDict [(''id'', JStr ''42'')])]" example_env 1 2 None 4
        None False "[(''id'', JStr ''42'')]"]
      init_raises [of "[(''d'', JStr ''42'')]" example_env 1 2 None 4 None False _ "JStr ''42''"]
    by (simp add: keys_def)
qed

text \<open>
  C2. Given \<open>responded\<close> is False, \<^verbatim>\<open>respond\<close> is to raise
  \<^verbatim>\<open>InvalidArgument("Embed limit exceeded. (Max: 10)")\<close> exactly when more than ten embeds
  are supplied. The code misses this for an \<^verbatim>\<open>embed\<close> that is false (an embed without
  text): line 177 tests its truth where the docstring promises any \<^verbatim>\<open>Optional[Embed]\<close>.
  With ten embeds in \<^verbatim>\<open>embeds\<close> and such an \<^verbatim>\<open>embed\<close>, eleven embeds are supplied, yet
  \<^verbatim>\<open>respond\<close> raises nothing and issues its request; the same eleven embeds, all passed in
  \<^verbatim>\<open>embeds\<close>, raise the error.
\<close>

theorem respond_embed_limit_falsy_embed:
  "\<not> responded example_interaction
   \<and> \<not> truth example_env 0
   \<and> spec_embed_total (Some 0) (Some ten_embeds) = 11
   \<and> ret (respond example_env example_interaction
          (default_args\<lparr>embed := Some 0, embeds := Some ten_embeds\<rparr>)) = Inr ()
   \<and> length (requests (respond example_env example_interaction
          (default_args\<lparr>embed := Some 0, embeds := Some ten_embeds\<rparr>))) = 1
   \<and> spec_embed_total None (Some (ten_embeds @ [0])) = 11
   \<and> ret (respond example_env example_interaction
          (default_args\<lparr>embeds := Some (ten_embeds @ [0])\<rparr>)) = Inl limit_error"
  by (simp add: respond_eval spec_embed_total_def limit_error_def)

text \<open>
  C3, as stated, fails: a call on an instance that has responded issues no request.
\<close>

theorem respond_one_request_counterexample:
  "responded (example_interaction\<lparr>responded := True\<rparr>)
   \<and> requests (respond example_env (example_interaction\<lparr>responded := True\<rparr>) default_args) = []"
  by (simp add: respond_def)

text \<open>
  C3, amended. A call of \<^verbatim>\<open>respond\<close> on an instance that has not responded, with at most
  ten embeds to send, issues exactly one request, a POST to
  \<^verbatim>\<open>/interactions/{interaction_id}/{interaction_token}/callback\<close> with the body
  \<^verbatim>\<open>{"type": type, "data": data}\<close>; a call on an instance that has responded, or one that
  raises the embed-limit error, issues none.
\<close>

theorem respond_one_request:
  "(\<not> responded self \<and> length (sent_embeds env (embed a) (embeds a)) \<le> 10 \<longrightarrow>
      (\<exists>data. requests (respond env self a) =
         [\<lparr> route_method = ''POST'',
            route_path = [Lit ''/interactions/'', Fmt (interaction_id self), Lit ''/'',
                          Fmt (interaction_token self), Lit ''/callback''],
            json_body = JDict [(''type'', JInt (type a)), (''data'', JDict data)] \<rparr>]))
   \<and> (responded self \<or> 10 < length (sent_embeds env (embed a) (embeds a)) \<longrightarrow>
        requests (respond env self a) = [])"
  by (simp add: respond_requests_cases callback_request_def)

theorem respond_one_request_witness:
  "\<not> responded example_interaction
   \<and> length (sent_embeds example_env (embed default_args) (embeds default_args)) \<le> 10
   \<and> (\<exists>data. requests (respond example_env example_interaction default_args) =
         [\<lparr> route_method = ''POST'',
            route_path = [Lit ''/interactions/'', Fmt (JStr ''42''), Lit ''/'',
                          Fmt (JStr ''tok''), Lit ''/callback''],
            json_body = JDict [(''type'', JInt 4), (''data'', JDict data)] \<rparr>])
   \<and> 10 < length (sent_embeds example_env (Some 11) (Some ten_embeds))
   \<and> requests (respond example_env example_interaction
          (default_args\<lparr>embed := Some 11, embeds := Some ten_embeds\<rparr>)) = []"
proof -
  have h: "\<not> responded example_interaction"
    by (simp add: example_interaction_def)
  have n: "length (sent_embeds example_env (embed default_args) (embeds default_args)) \<le> 10"
    by (simp add: sent_embeds_def default_args_def)
  have m: "10 < length (sent_embeds example_env (Some 11) (Some ten_embeds))"
    by (simp add: sent_embeds_def example_env_def ten_embeds_def)
  have i: "interaction_id example_interaction = JStr ''42''"
    "interaction_token example_interaction = JStr ''tok''"
    "type default_args = 4"
    by (simp_all add: example_interaction_def default_args_def
        InteractionType_ChannelMessageWithSource_def)
  show ?thesis
    using h n m i
      respond_one_request [of example_interaction example_env default_args]
      respond_one_request [of example_interaction example_env
        "default_args\<lparr>embed := Some 11, embeds := Some ten_embeds\<rparr>"]
    by simp
qed


text \<open>
  C5. The data of the payload is to hold the key \<^verbatim>\<open>"embeds"\<close>, with the dict forms of all
  supplied embeds, exactly when an embed is supplied. The code misses this for an
  \<^verbatim>\<open>embed\<close> that is false (an embed without text), by the truth test of line 177: passed
  as \<^verbatim>\<open>embed\<close>, the embed is dropped and the data has no key \<^verbatim>\<open>"embeds"\<close>; passed as
  \<^verbatim>\<open>embeds=[e]\<close>, the same embed is sent.
\<close>

theorem respond_payload_falsy_embed:
  "\<not> truth example_env 0
   \<and> spec_supplied_embeds (Some 0) None = [0]
   \<and> map json_body (requests (respond example_env example_interaction
                                 (default_args\<lparr>embed := Some 0\<rparr>)))
       = [JDict [(''type'', JInt 4),
                 (''data'', JDict [(''flags'', JInt 64), (''tts'', JBool False)])]]
   \<and> spec_supplied_embeds None (Some [0]) = [0]
   \<and> map json_body (requests (respond example_env example_interaction
                                 (default_args\<lparr>embeds := Some [0]\<rparr>)))
       = [JDict [(''type'', JInt 4),
                 (''data'', JDict [(''flags'', JInt 64),
                                   (''embeds'', JList [JDict [(''type'', JStr ''rich'')]]),
                                   (''tts'', JBool False)])]]"
  by (simp add: respond_eval spec_supplied_embeds_def)

text \<open>
  C8. When \<^verbatim>\<open>respond\<close> raises the embed-limit error, the instance is as it was, its flag
  \<open>responded\<close> is still False and no request has been issued; a later call on the same
  instance with at most ten embeds to send performs the callback: it issues the one
  request, a POST to \<^verbatim>\<open>/interactions/{interaction_id}/{interaction_token}/callback\<close> with
  the body \<^verbatim>\<open>{"type": type, "data": data}\<close> built from its own arguments, and sets the flag.
\<close>

theorem respond_limit_error_keeps_state:
  "ret (respond env self a) = Inl limit_error \<Longrightarrow>
     self_after (respond env self a) = self
     \<and> \<not> responded (self_after (respond env self a))
     \<and> requests (respond env self a) = []
     \<and> (\<forall>b. length (sent_embeds env (embed b) (embeds b)) \<le> 10 \<longrightarrow>
            requests (respond env (self_after (respond env self a)) b) =
              [\<lparr> route_method = ''POST'',
                 route_path = [Lit ''/interactions/'', Fmt (interaction_id self), Lit ''/'',
                               Fmt (interaction_token self), Lit ''/callback''],
                 json_body = JDict [(''type'', JInt (type b)),
                                    (''data'', JDict (sent_data env self b))] \<rparr>]
            \<and> responded (self_after (respond env (self_after (respond env self a)) b)))"
proof -
  assume h: "ret (respond env self a) = Inl limit_error"
  then have n: "\<not> responded self"
    by (auto simp: respond_ret_cases)
  with h have l: "10 < length (sent_embeds env (embed a) (embeds a))"
    by (auto simp: respond_ret_cases limit_error_def split: if_splits option.splits)
  have s: "self_after (respond env self a) = self"
    using n l by (simp add: respond_raises)
  show ?thesis
    using n l s by (simp add: respond_raises respond_sends callback_request_def)
qed

theorem respond_limit_error_keeps_state_witness:
  "ret (respond example_env example_interaction
          (default_args\<lparr>embed := Some 11, embeds := Some ten_embeds\<rparr>)) = Inl limit_error
   \<and> self_after (respond example_env example_interaction
          (default_args\<lparr>embed := Some 11, embeds := Some ten_embeds\<rparr>)) = example_interaction
   \<and> \<not> responded (self_after (respond example_env example_interaction
          (default_args\<lparr>embed := Some 11, embeds := Some ten_embeds\<rparr>)))
   \<and> requests (respond example_env example_interaction
          (default_args\<lparr>embed := Some 11, embeds := Some ten_embeds\<rparr>)) = []
   \<and> requests (respond example_env
        (self_after (respond example_env example_interaction
          (default_args\<lparr>embed := Some 11, embeds := Some ten_embeds\<rparr>)))
        (default_args\<lparr>content := Some ''hi'', embed := Some 11\<rparr>)) =
       [\<lparr> route_method = ''POST'',
          route_path = [Lit ''/interactions/'', Fmt (JStr ''42''), Lit ''/'',
                        Fmt (JStr ''tok''), Lit ''/callback''],
          json_body = JDict [(''type'', JInt 4),
                             (''data'', JDict [(''flags'', JInt 64), (''content'', JStr ''hi''),
                                               (''embeds'', JList [JDict [(''type'', JStr ''rich'')]]),
                                               (''tts'', JBool False)])] \<rparr>]
   \<and> responded (self_after (respond example_env
        (self_after (respond example_env example_interaction
          (default_args\<lparr>embed := Some 11, embeds := Some ten_embeds\<rparr>)))
        (default_args\<lparr>content := Some ''hi'', embed := Some 11\<rparr>)))"
proof -
  let ?a = "default_args\<lparr>embed := Some 11, embeds := Some ten_embeds\<rparr>"
  let ?b = "default_args\<lparr>content := Some ''hi'', embed := Some 11\<rparr>"
  have h: "ret (respond example_env example_interaction ?a) = Inl limit_error"
    by (simp add: respond_eval limit_error_def)
  have b: "length (sent_embeds example_env (embed ?b) (embeds ?b)) \<le> 10"
    by (simp add: sent_embeds_def default_args_def example_env_def)
  have d: "sent_data example_env example_interaction ?b =
             [(''flags'', JInt 64), (''content'', JStr ''hi''),
              (''embeds'', JList [JDict [(''type'', JStr ''rich'')]]), (''tts'', JBool False)]"
    by (simp add: sent_data_def sent_embeds_def respond_eval)
  have i: "interaction_id example_interaction = JStr ''42''"
    "interaction_token example_interaction = JStr ''tok''"
    "type ?b = 4"
    by (simp_all add: example_interaction_def default_args_def
        InteractionType_ChannelMessageWithSource_def)
  note t = respond_limit_error_keeps_state [OF h]
  from t b have
    "requests (respond example_env
        (self_after (respond example_env example_interaction ?a)) ?b) =
       [\<lparr> route_method = ''POST'',
          route_path = [Lit ''/interactions/'', Fmt (interaction_id example_interaction),
                        Lit ''/'', Fmt (interaction_token example_interaction),
                        Lit ''/callback''],
          json_body = JDict [(''type'', JInt (type ?b)),
                             (''data'', JDict (sent_data example_env example_interaction ?b))] \<rparr>]
     \<and> responded (self_after (respond example_env
          (self_after (respond example_env example_interaction ?a)) ?b))"
    by blast
  moreover have "\<not> responded example_interaction"
    by (simp add: example_interaction_def)
  ultimately show ?thesis using h t d i by simp
qed

text \<open>
  C9. The default of \<^verbatim>\<open>tts\<close> is False, not \<^verbatim>\<open>None\<close>: a call that leaves \<^verbatim>\<open>tts\<close> at its
  default and issues its request sends \<^verbatim>\<open>"tts": false\<close> in the data, and the data lacks the
  key \<^verbatim>\<open>"tts"\<close> only when \<^verbatim>\<open>tts\<close> is \<^verbatim>\<open>None\<close>.
\<close>

theorem respond_tts_default:
  assumes "requests (respond env self a) = [r]"
  shows "tts default_args = Some False
         \<and> (\<exists>data.
               json_body r = JDict [(''type'', JInt (type a)), (''data'', JDict data)]
               \<and> (tts a = tts default_args \<longrightarrow> map_of data ''tts'' = Some (JBool False))
               \<and> (''tts'' \<notin> keys data \<longrightarrow> tts a = None))"
proof -
  let ?data = "sent_data env self a"
  have r: "json_body r = JDict [(''type'', JInt (type a)), (''data'', JDict ?data)]"
    using respond_requests_single [OF assms] by (simp add: callback_request_def)
  have d: "tts default_args = Some False"
    by (simp add: default_args_def)
  have t: "tts a = tts default_args \<longrightarrow> map_of ?data ''tts'' = Some (JBool False)"
    using d by (simp add: map_of_sent_data_tts)
  have k: "''tts'' \<notin> keys ?data \<longrightarrow> tts a = None"
    by (simp add: keys_sent_data)
  from r d t k show ?thesis by blast
qed

theorem respond_tts_default_witness:
  "requests (respond example_env example_interaction (default_args\<lparr>content := Some ''hi''\<rparr>))
     = [callback_request (example_interaction\<lparr>responded := True\<rparr>) 4
          [(''flags'', JInt 64), (''content'', JStr ''hi''), (''tts'', JBool False)]]
   \<and> tts (default_args\<lparr>content := Some ''hi''\<rparr>) = tts default_args
   \<and> (\<exists>data.
         json_body (callback_request (example_interaction\<lparr>responded := True\<rparr>) 4
           [(''flags'', JInt 64), (''content'', JStr ''hi''), (''tts'', JBool False)])
           = JDict [(''type'', JInt 4), (''data'', JDict data)]
         \<and> map_of data ''tts'' = Some (JBool False))
   \<and> requests (respond example_env example_interaction (default_args\<lparr>tts := None\<rparr>))
     = [callback_request (example_interaction\<lparr>responded := True\<rparr>) 4 [(''flags'', JInt 64)]]
   \<and> ''tts'' \<notin> keys [(''flags'', JInt 64)]"
proof -
  let ?a = "default_args\<lparr>content := Some ''hi''\<rparr>"
  let ?r = "callback_request (example_interaction\<lparr>responded := True\<rparr>) 4
          [(''flags'', JInt 64), (''content'', JStr ''hi''), (''tts'', JBool False)]"
  have h: "requests (respond example_env example_interaction ?a) = [?r]"
    by (simp add: respond_eval)
  have g: "requests (respond example_env example_interaction (default_args\<lparr>tts := None\<rparr>))
     = [callback_request (example_interaction\<lparr>responded := True\<rparr>) 4 [(''flags'', JInt 64)]]"
    by (simp add: respond_eval)
  have v: "tts ?a = tts default_args" "type ?a = 4"
    by (simp_all add: default_args_def InteractionType_ChannelMessageWithSource_def)
  have k: "''tts'' \<notin> keys [(''flags'', JInt 64)]"
    by (simp add: keys_def)
  from respond_tts_default [OF h] v obtain data where
    "json_body ?r = JDict [(''type'', JInt 4), (''data'', JDict data)]"
    "map_of data ''tts'' = Some (JBool False)"
    by auto
  with h g v k show ?thesis by blast
qed

end
